theory Spec2Isabelle
  imports Main
begin

section \<open>Values of the subscription provider\<close>

text \<open>
  The rule engine of \<^verbatim>\<open>src/rules/ruleEngine.js\<close> reads a subscription object
  fetched from the provider and the user's description of the problem. A JavaScript
  property that is missing, \<^verbatim>\<open>null\<close> or otherwise falsy is \<open>None\<close> here; a status
  or identifier that is present is the string itself.

  A number of the program is a whole number or \<^verbatim>\<open>NaN\<close>: every comparison with
  \<^verbatim>\<open>NaN\<close> is false.
\<close>

datatype jsnumber = Num int | NaN

fun js_gt :: "jsnumber \<Rightarrow> int \<Rightarrow> bool" where
  "js_gt (Num a) b = (a > b)"
| "js_gt NaN b = False"

fun js_lt :: "jsnumber \<Rightarrow> int \<Rightarrow> bool" where
  "js_lt (Num a) b = (a < b)"
| "js_lt NaN b = False"

fun js_ge :: "jsnumber \<Rightarrow> int \<Rightarrow> bool" where
  "js_ge (Num a) b = (a \<ge> b)"
| "js_ge NaN b = False"

text \<open>
  A truthy \<^verbatim>\<open>createdAt\<close> is kept as what \<^verbatim>\<open>new Date(createdAt)\<close> makes of it: an
  instant in milliseconds since the epoch, or the invalid date, whose arithmetic gives
  \<^verbatim>\<open>NaN\<close>.
\<close>

datatype date = Instant int | InvalidDate

record sim_record =
  sim_id :: "string option"
  sim_status :: "string option"
  sim_createdAt :: "date option"

record subscription =
  status :: "string option"
  createdAt :: "date option"
  sim :: "sim_record option"

text \<open>
  Reading a property of a value that is not there throws a \<^verbatim>\<open>TypeError\<close>: a step that
  can throw returns \<open>Inl\<close> of the error, and \<open>and_then\<close> goes on with the value of a step
  that did not throw.
\<close>

datatype error = TypeError

fun get_property :: "'o option \<Rightarrow> ('o \<Rightarrow> 'p) \<Rightarrow> error + 'p" where
  "get_property None property = Inl TypeError"
| "get_property (Some obj) property = Inr (property obj)"

fun and_then :: "error + 'a \<Rightarrow> ('a \<Rightarrow> error + 'b) \<Rightarrow> error + 'b" where
  "and_then (Inl e) f = Inl e"
| "and_then (Inr a) f = f a"

text \<open>\<^verbatim>\<open>data.sim || {}\<close>: an absent SIM is replaced by the object without properties.\<close>

definition empty_sim :: sim_record where
  "empty_sim = \<lparr>sim_id = None, sim_status = None, sim_createdAt = None\<rparr>"

definition sim_or_empty :: "subscription \<Rightarrow> sim_record option" where
  "sim_or_empty data = (case sim data of None \<Rightarrow> Some empty_sim | Some s \<Rightarrow> Some s)"

text \<open>\<^verbatim>\<open>a || b\<close> on values whose falsy forms are all \<open>None\<close>.\<close>

fun js_or :: "'a option \<Rightarrow> 'a option \<Rightarrow> 'a option" where
  "js_or (Some a) b = Some a"
| "js_or None b = b"

text \<open>\<^verbatim>\<open>data.sim?.createdAt\<close>: the optional chain yields undefined when there is no SIM.\<close>

definition sim_createdAt_opt :: "subscription \<Rightarrow> date option" where
  "sim_createdAt_opt data = (case sim data of None \<Rightarrow> None | Some s \<Rightarrow> sim_createdAt s)"

section \<open>Text of the user\<close>

text \<open>
  The user's text is a \<open>string\<close> whose characters are the code points U+0000 to U+00FF.
  On these \<^verbatim>\<open>toLowerCase\<close> moves A to Z and the capital letters U+00C0 to U+00DE
  (the multiplication sign U+00D7 apart) up by 32 and leaves every other character.
  \<^verbatim>\<open>includes\<close> is the search for a contiguous occurrence.
\<close>

definition toLowerChar :: "char \<Rightarrow> char" where
  "toLowerChar c =
     (let n = (of_char c :: nat)
      in if (65 \<le> n \<and> n \<le> 90) \<or> (192 \<le> n \<and> n \<le> 222 \<and> n \<noteq> 215)
         then char_of (n + 32) else c)"

definition toLowerCase :: "string \<Rightarrow> string" where
  "toLowerCase s = map toLowerChar s"

fun str_includes :: "string \<Rightarrow> string \<Rightarrow> bool" where
  "str_includes [] kw = (kw = [])"
| "str_includes (c # cs) kw = (take (length kw) (c # cs) = kw \<or> str_includes cs kw)"

text \<open>\<^verbatim>\<open>keywords.some(kw => userIssue.toLowerCase().includes(kw))\<close>\<close>

definition mentions :: "string list \<Rightarrow> string \<Rightarrow> bool" where
  "mentions keywords userIssue = list_ex (\<lambda>kw. str_includes (toLowerCase userIssue) kw) keywords"

section \<open>The rule engine\<close>

text \<open>
  The message and the reasoning of a result are fixed sentences of the source, two of
  them with a number put in. The embedding keeps which sentence it is and the number:
  \<^item> \<open>MsgActivationReset\<close>: "We detected your activation was stuck. We've reset it ..."
    (rules 1 and 7 use the same sentence);
  \<^item> \<open>MsgPaymentHold\<close>: "Your activation is on hold due to a payment issue. ...";
  \<^item> \<open>MsgWait k\<close>: "Your activation is in progress. ... Please wait k more minute(s) and
    restart your phone.";
  \<^item> \<open>MsgDeviceSettings\<close>: "Your line is active on our end. Let's check your device
    settings: ...";
  \<^item> \<open>MsgOverdue\<close>: "Your service is restricted due to an overdue payment. ...";
  \<^item> \<open>MsgCanceled\<close>: "This subscription has been canceled. ...".
\<close>

datatype message =
  MsgActivationReset | MsgPaymentHold | MsgWait jsnumber
  | MsgDeviceSettings | MsgOverdue | MsgCanceled

text \<open>
  \<^item> \<open>WhyPendingFor m\<close>: "Provisioning has been pending for m minutes (>15 min threshold)";
  \<^item> \<open>WhyInitiated\<close>: "Subscription is in 'initiated' status, indicating unpaid first invoice";
  \<^item> \<open>WhyOnlyElapsed m\<close>: "Only m minutes have elapsed - still within normal activation window";
  \<^item> \<open>WhyDeviceConfig\<close>: "Backend shows active status but user reports no service - ...";
  \<^item> \<open>WhyRestricted\<close>: "Subscription status is 'restricted' indicating service suspension";
  \<^item> \<open>WhyEnded\<close>: "Subscription is in terminal 'ended' state";
  \<^item> \<open>WhyPendingTwenty\<close>: "Provisioning has been pending for 20 minutes".
\<close>

datatype reasoning =
  WhyPendingFor jsnumber | WhyInitiated | WhyOnlyElapsed jsnumber
  | WhyDeviceConfig | WhyRestricted | WhyEnded | WhyPendingTwenty

record diagnosis =
  ruleName :: string
  confidence :: int
  action :: string
  simId :: "string option"
  message :: message
  reasoning :: reasoning

text \<open>
  \<^verbatim>\<open>_minutesSinceActivation\<close>. The argument \<open>now\<close> is what \<^verbatim>\<open>new Date()\<close> reads in this
  call, in milliseconds since the epoch. \<^verbatim>\<open>Math.floor(diffMs / (1000 * 60))\<close> is the
  division of integers that rounds down. The SIM's \<^verbatim>\<open>createdAt\<close> is read through the
  optional chain, which does not throw.
\<close>

definition minutesSinceActivation :: "int \<Rightarrow> subscription \<Rightarrow> jsnumber" where
  "minutesSinceActivation now data =
     (case js_or (createdAt data) (sim_createdAt_opt data) of
        None \<Rightarrow> Num 0
      | Some InvalidDate \<Rightarrow> NaN
      | Some (Instant createdTime) \<Rightarrow> Num ((now - createdTime) div (1000 * 60)))"

text \<open>\<^verbatim>\<open>Math.ceil(15 - minutesElapsed)\<close>; the difference of whole numbers is whole.\<close>

fun minutesRemaining :: "jsnumber \<Rightarrow> jsnumber" where
  "minutesRemaining (Num m) = Num (15 - m)"
| "minutesRemaining NaN = NaN"

text \<open>
  One evaluation calls \<^verbatim>\<open>_minutesSinceActivation\<close> at three places, each at most once
  and each with its own reading of the clock: in the condition of rule 1, in the
  reasoning of rule 1, and at the start of rule 3. These are the three readings, in the
  order of the calls.
\<close>

record readings =
  at_stuck_check :: int
  at_stuck_reasoning :: int
  at_delay :: int

type_synonym rule = "readings \<Rightarrow> subscription \<Rightarrow> string \<Rightarrow> error + diagnosis option"

definition ruleProvisioningStuck :: rule where
  "ruleProvisioningStuck t data userIssue =
     (let sim = sim_or_empty data in
      and_then (get_property sim sim_status) (\<lambda>simStatus.
        if simStatus = Some ''inactive'' \<and> status data = Some ''pending''
           \<and> js_gt (minutesSinceActivation (at_stuck_check t) data) 15
        then and_then (get_property sim sim_id) (\<lambda>simIdent.
          Inr (Some \<lparr>ruleName = ''provisioning_stuck'', confidence = 95,
                     action = ''reprovision'', simId = simIdent,
                     message = MsgActivationReset,
                     reasoning = WhyPendingFor
                       (minutesSinceActivation (at_stuck_reasoning t) data)\<rparr>))
        else Inr None))"

definition ruleBillingHold :: rule where
  "ruleBillingHold t data userIssue =
     (let sim = sim_or_empty data in
      and_then (get_property sim sim_status) (\<lambda>simStatus.
        if simStatus = Some ''inactive'' \<and> status data = Some ''initiated''
        then Inr (Some \<lparr>ruleName = ''billing_hold'', confidence = 98,
                        action = ''route_to_payment'', simId = None,
                        message = MsgPaymentHold, reasoning = WhyInitiated\<rparr>)
        else Inr None))"

definition ruleNormalDelay :: rule where
  "ruleNormalDelay t data userIssue =
     (let sim = sim_or_empty data;
          minutesElapsed = minutesSinceActivation (at_delay t) data in
      and_then (get_property sim sim_status) (\<lambda>simStatus.
        if simStatus = Some ''inactive'' \<and> status data = Some ''pending''
           \<and> js_lt minutesElapsed 15
        then Inr (Some \<lparr>ruleName = ''normal_delay'', confidence = 90,
                        action = ''wait'', simId = None,
                        message = MsgWait (minutesRemaining minutesElapsed),
                        reasoning = WhyOnlyElapsed minutesElapsed\<rparr>)
        else Inr None))"

definition noServiceKeywords :: "string list" where
  "noServiceKeywords = [''no service'', ''no data'', ''not working'', ''no signal'']"

definition ruleDeviceConfig :: rule where
  "ruleDeviceConfig t data userIssue =
     (let sim = sim_or_empty data;
          mentionsNoService = mentions noServiceKeywords userIssue in
      and_then (get_property sim sim_status) (\<lambda>simStatus.
        if simStatus = Some ''active'' \<and> status data = Some ''active''
           \<and> mentionsNoService
        then Inr (Some \<lparr>ruleName = ''device_config'', confidence = 85,
                        action = ''route_to_settings_guide'', simId = None,
                        message = MsgDeviceSettings, reasoning = WhyDeviceConfig\<rparr>)
        else Inr None))"

definition rulePaymentOverdue :: rule where
  "rulePaymentOverdue t data userIssue =
     (if status data = Some ''restricted''
      then Inr (Some \<lparr>ruleName = ''payment_overdue'', confidence = 98,
                      action = ''route_to_payment_restoration'', simId = None,
                      message = MsgOverdue, reasoning = WhyRestricted\<rparr>)
      else Inr None)"

definition ruleSubscriptionEnded :: rule where
  "ruleSubscriptionEnded t data userIssue =
     (if status data = Some ''ended''
      then Inr (Some \<lparr>ruleName = ''subscription_ended'', confidence = 100,
                      action = ''inform_only'', simId = None,
                      message = MsgCanceled, reasoning = WhyEnded\<rparr>)
      else Inr None)"

definition activationFailedKeyword :: "string list" where
  "activationFailedKeyword = [''activation failed'']"

definition ruleActivationFailed :: rule where
  "ruleActivationFailed t data userIssue =
     (let mentionsActivationFailed = mentions activationFailedKeyword userIssue in
      if mentionsActivationFailed
      then Inr (Some \<lparr>ruleName = ''activation_failed'', confidence = 85,
                      action = ''reprovision'', simId = None,
                      message = MsgActivationReset, reasoning = WhyPendingTwenty\<rparr>)
      else Inr None)"

text \<open>
  \<^verbatim>\<open>evaluate\<close>: the array of rules and the loop over it, which returns the first
  result that is not null. An error thrown by a rule leaves the loop.
\<close>

definition rules :: "rule list" where
  "rules = [ruleProvisioningStuck, ruleBillingHold, ruleNormalDelay, ruleDeviceConfig,
            rulePaymentOverdue, ruleSubscriptionEnded, ruleActivationFailed]"

fun run_rules ::
  "rule list \<Rightarrow> readings \<Rightarrow> subscription \<Rightarrow> string \<Rightarrow> error + diagnosis option" where
  "run_rules [] t data userIssue = Inr None"
| "run_rules (rule # rest) t data userIssue =
     (case rule t data userIssue of
        Inl e \<Rightarrow> Inl e
      | Inr (Some result) \<Rightarrow> Inr (Some result)
      | Inr None \<Rightarrow> run_rules rest t data userIssue)"

definition evaluate :: "readings \<Rightarrow> subscription \<Rightarrow> string \<Rightarrow> error + diagnosis option" where
  "evaluate t data userIssue = run_rules rules t data userIssue"

section \<open>The provider client\<close>

text \<open>
  \<^verbatim>\<open>GigsClient\<close> (\<^verbatim>\<open>src/unnamed/part_000\<close>) wraps the HTTP calls to the provider. What
  the provider answers is not code of the program: \<open>http_get\<close> and \<open>http_post\<close> give,
  for a path, the body of the answer (\<open>Inr\<close>) or the detail of the error that the call
  throws (\<open>Inl\<close>).
\<close>

record provider =
  http_get :: "string \<Rightarrow> string + subscription"
  http_post :: "string \<Rightarrow> string + string"

datatype subscription_response = SubscriptionOk subscription | SubscriptionFailed string

definition getSubscription :: "provider \<Rightarrow> string \<Rightarrow> subscription_response" where
  "getSubscription p subscriptionId =
     (case http_get p (''/subscriptions/'' @ subscriptionId) of
        Inr responseData \<Rightarrow> SubscriptionOk responseData
      | Inl err \<Rightarrow> SubscriptionFailed err)"

text \<open>
  The outcome of \<^verbatim>\<open>reprovisionSIM\<close>: the \<^verbatim>\<open>success\<close> flag, the \<^verbatim>\<open>data\<close> (the
  provider's body, or the object the program makes up) and the \<^verbatim>\<open>mocked\<close> property,
  which only the made-up outcome has. The timestamp of the made-up object is the clock
  reading \<open>ts\<close> at that moment.
\<close>

record mock_data =
  mock_simId :: string
  mock_action :: string
  mock_message :: string
  mock_timestamp :: int

datatype reprovision_data = ProviderData string | MockData mock_data

record action_outcome =
  success :: bool
  outcome_data :: reprovision_data
  mocked :: "bool option"

definition reprovisionSIM :: "provider \<Rightarrow> int \<Rightarrow> string \<Rightarrow> action_outcome" where
  "reprovisionSIM p ts simId' =
     (case http_post p (''/v1/sims/'' @ simId' @ ''/reprovision'') of
        Inr responseData \<Rightarrow>
          \<lparr>success = True, outcome_data = ProviderData responseData, mocked = None\<rparr>
      | Inl err \<Rightarrow>
          \<lparr>success = True,
           outcome_data = MockData
             \<lparr>mock_simId = simId', mock_action = ''reprovision_triggered'',
              mock_message = ''SIM reprovisioning initiated (mocked for prototype)'',
              mock_timestamp = ts\<rparr>,
           mocked = Some True\<rparr>)"

section \<open>The diagnose handler\<close>

text \<open>
  What \<^verbatim>\<open>llmHandler.diagnose\<close> returns: the object parsed from the model's answer, or
  the error message. The parsed object has the properties that the prompt asks for; a
  \<^verbatim>\<open>confidence\<close> that is missing or not a number is \<open>NaN\<close>.
\<close>

record llm_diagnosis =
  diagnosis_text :: string
  recommendedAction :: string
  llm_confidence :: jsnumber
  llm_reasoning :: string
  userMessage :: "string option"

datatype llm_result = LlmOk llm_diagnosis | LlmFailed string

text \<open>
  The world of one request: the provider, the reasoner's answer for a subscription and a
  text, the clock readings of the rule engine and the reading \<open>clock_later\<close> of a
  reprovision.
\<close>

record env =
  gigs :: provider
  llm :: "subscription \<Rightarrow> string \<Rightarrow> llm_result"
  clock :: readings
  clock_later :: int

record request =
  req_subscriptionId :: "string option"
  req_userIssue :: "string option"

text \<open>
  The bodies of the three answers with status 200. \<^verbatim>\<open>processingTimeMs\<close>, a measurement
  of the wall clock, is left out. An error thrown inside the handler is caught and
  answered with status 500 (\<open>InternalError\<close>).
\<close>

record rule_engine_body =
  re_method :: string
  re_rule :: string
  re_confidence :: int
  re_action :: string
  re_message :: message
  re_reasoning :: reasoning
  re_actionResult :: "action_outcome option"
  re_apiCalls :: "string list"

record llm_failed_body =
  lf_method :: string
  lf_confidence :: int
  lf_action :: string
  lf_message :: string
  lf_reasoning :: string
  lf_apiCalls :: "string list"

record llm_body =
  lb_method :: string
  lb_confidence :: jsnumber
  lb_action :: string
  lb_message :: string
  lb_reasoning :: string
  lb_actionResult :: "action_outcome option"
  lb_apiCalls :: "string list"

datatype http_response =
  MissingFields
  | FetchFailed string
  | RuleEngine rule_engine_body
  | LlmFailedAnswer llm_failed_body
  | LlmAnswer llm_body
  | InternalError

fun status_code :: "http_response \<Rightarrow> nat" where
  "status_code MissingFields = 400"
| "status_code (FetchFailed details) = 500"
| "status_code (RuleEngine body) = 200"
| "status_code (LlmFailedAnswer body) = 200"
| "status_code (LlmAnswer body) = 200"
| "status_code InternalError = 500"

text \<open>A string property is truthy when it is present and not empty.\<close>

fun truthy :: "string option \<Rightarrow> bool" where
  "truthy None = False"
| "truthy (Some s) = (s \<noteq> [])"

text \<open>
  A property put into a template string: the string itself, or the word that JavaScript
  prints for a missing one.
\<close>

fun template :: "string option \<Rightarrow> string" where
  "template (Some s) = s"
| "template None = ''undefined''"

text \<open>The branch of the handler for a matched rule (\<^verbatim>\<open>if (ruleResult) { ... }\<close>).\<close>

definition rule_engine_answer :: "env \<Rightarrow> string \<Rightarrow> diagnosis \<Rightarrow> rule_engine_body" where
  "rule_engine_answer e sid ruleResult =
     (let actionResult =
            (if action ruleResult = ''reprovision'' \<and> truthy (simId ruleResult)
             then Some (reprovisionSIM (gigs e) (clock_later e) (template (simId ruleResult)))
             else None)
      in \<lparr>re_method = ''rule_engine'', re_rule = ruleName ruleResult,
          re_confidence = confidence ruleResult, re_action = action ruleResult,
          re_message = message ruleResult, re_reasoning = reasoning ruleResult,
          re_actionResult = actionResult,
          re_apiCalls = (''GET /subscriptions/'' @ sid)
            # (case actionResult of
                 Some r \<Rightarrow> [''POST /sims/'' @ template (simId ruleResult) @ ''/reprovision'']
               | None \<Rightarrow> [])\<rparr>)"

text \<open>The answer when the reasoner failed (\<^verbatim>\<open>if (!llmResult.success) { ... }\<close>).\<close>

definition llm_failed_answer :: "string \<Rightarrow> string \<Rightarrow> llm_failed_body" where
  "llm_failed_answer sid err =
     \<lparr>lf_method = ''llm_failed'', lf_confidence = 0, lf_action = ''escalate'',
      lf_message = ''Unable to diagnose automatically. A support agent will review your case.'',
      lf_reasoning = err,
      lf_apiCalls = [''GET /subscriptions/'' @ sid]\<rparr>"

text \<open>
  The confidence gate on the reasoner's diagnosis: at 80 or more a recommended
  reprovision is executed when the subscription has a SIM identifier; below, the
  recommended action is overwritten.
\<close>

definition sim_id_opt :: "subscription \<Rightarrow> string option" where
  "sim_id_opt subscriptionData =
     (case sim subscriptionData of None \<Rightarrow> None | Some s \<Rightarrow> sim_id s)"

definition llm_answer :: "env \<Rightarrow> string \<Rightarrow> subscription \<Rightarrow> llm_diagnosis \<Rightarrow> llm_body" where
  "llm_answer e sid subscriptionData diagnosis0 =
     (let confident = js_ge (llm_confidence diagnosis0) 80;
          actionResult =
            (if confident \<and> recommendedAction diagnosis0 = ''reprovision''
                \<and> truthy (sim_id_opt subscriptionData)
             then Some (reprovisionSIM (gigs e) (clock_later e)
                          (template (sim_id_opt subscriptionData)))
             else None);
          diagnosis1 =
            (if confident then diagnosis0
             else diagnosis0\<lparr>recommendedAction := ''escalate''\<rparr>)
      in \<lparr>lb_method = ''llm'', lb_confidence = llm_confidence diagnosis1,
          lb_action = recommendedAction diagnosis1,
          lb_message = (if truthy (userMessage diagnosis1)
                        then template (userMessage diagnosis1)
                        else diagnosis_text diagnosis1),
          lb_reasoning = llm_reasoning diagnosis1,
          lb_actionResult = actionResult,
          lb_apiCalls =
            [''GET /subscriptions/'' @ sid,
             ''POST /models/gemini-2.5-flash:generateContent (Gemini API)'']
            @ (case actionResult of
                 Some r \<Rightarrow> [''POST /sims/'' @ template (sim_id_opt subscriptionData)
                              @ ''/reprovision'']
               | None \<Rightarrow> [])\<rparr>)"

text \<open>\<^verbatim>\<open>app.post('/diagnose', ...)\<close>\<close>

definition diagnose_handler :: "env \<Rightarrow> request \<Rightarrow> http_response" where
  "diagnose_handler e req =
     (case (req_subscriptionId req, req_userIssue req) of
        (Some sid, Some issue) \<Rightarrow>
          (if \<not> (truthy (Some sid) \<and> truthy (Some issue)) then MissingFields
           else
             (case getSubscription (gigs e) sid of
                SubscriptionFailed details \<Rightarrow> FetchFailed details
              | SubscriptionOk subscriptionData \<Rightarrow>
                  (case evaluate (clock e) subscriptionData issue of
                     Inl thrown \<Rightarrow> InternalError
                   | Inr (Some ruleResult) \<Rightarrow>
                       RuleEngine (rule_engine_answer e sid ruleResult)
                   | Inr None \<Rightarrow>
                       (case llm e subscriptionData issue of
                          LlmFailed err \<Rightarrow> LlmFailedAnswer (llm_failed_answer sid err)
                        | LlmOk diagnosis0 \<Rightarrow>
                            LlmAnswer (llm_answer e sid subscriptionData diagnosis0)))))
      | _ \<Rightarrow> MissingFields)"

section \<open>Example inputs\<close>

text \<open>
  A clock that gives the three readings \<open>now\<close>, \<open>now + 1\<close> and \<open>now + 2\<close>; a subscription
  that is active with an active SIM; one whose activation is pending on an inactive SIM
  since 1700000000000; and a world, twenty minutes after that instant, whose provider
  answers every fetch with \<open>sub\<close> and refuses every reprovision, and whose reasoner
  answers \<open>dg\<close>.
\<close>

definition clock_from :: "int \<Rightarrow> readings" where
  "clock_from now =
     \<lparr>at_stuck_check = now, at_stuck_reasoning = now + 1, at_delay = now + 2\<rparr>"

definition example_active :: subscription where
  "example_active =
     \<lparr>status = Some ''active'', createdAt = Some (Instant 1700000000000),
      sim = Some \<lparr>sim_id = Some ''sim_1'', sim_status = Some ''active'',
                  sim_createdAt = None\<rparr>\<rparr>"

definition example_stuck :: subscription where
  "example_stuck =
     \<lparr>status = Some ''pending'', createdAt = Some (Instant 1700000000000),
      sim = Some \<lparr>sim_id = Some ''sim_1'', sim_status = Some ''inactive'',
                  sim_createdAt = None\<rparr>\<rparr>"

definition example_env :: "subscription \<Rightarrow> llm_diagnosis \<Rightarrow> env" where
  "example_env sub dg =
     \<lparr>gigs = \<lparr>http_get = (\<lambda>path. Inr sub),
               http_post = (\<lambda>path. Inl ''Request failed with status code 404'')\<rparr>,
      llm = (\<lambda>subscriptionData issue. LlmOk dg),
      clock = clock_from 1700001200000, clock_later = 1700001201000\<rparr>"

definition example_diagnosis :: "int \<Rightarrow> llm_diagnosis" where
  "example_diagnosis c =
     \<lparr>diagnosis_text = ''Carrier sync error'', recommendedAction = ''reprovision'',
      llm_confidence = Num c, llm_reasoning = ''Unknown error code in the API state'',
      userMessage = Some ''We are resetting your line.''\<rparr>"

section \<open>Facts about the text operations\<close>

lemma toLowerChar_idem: "toLowerChar (toLowerChar c) = toLowerChar c"
  by (auto simp: toLowerChar_def Let_def)

lemma str_includes_iff: "str_includes s kw \<longleftrightarrow> (\<exists>p q. s = p @ kw @ q)"
proof (induction s)
  case Nil
  then show ?case by auto
next
  case (Cons c cs)
  show ?case
  proof
    assume "str_includes (c # cs) kw"
    then consider "take (length kw) (c # cs) = kw" | "str_includes cs kw" by auto
    then show "\<exists>p q. c # cs = p @ kw @ q"
    proof cases
      case 1
      then have "c # cs = [] @ kw @ drop (length kw) (c # cs)"
        by (metis append_Nil append_take_drop_id)
      then show ?thesis by blast
    next
      case 2
      then obtain p q where "cs = p @ kw @ q" using Cons.IH by blast
      then have "c # cs = (c # p) @ kw @ q" by simp
      then show ?thesis by blast
    qed
  next
    assume "\<exists>p q. c # cs = p @ kw @ q"
    then obtain p q where pq: "c # cs = p @ kw @ q" by blast
    show "str_includes (c # cs) kw"
    proof (cases p)
      case Nil
      then have "take (length kw) (c # cs) = kw" using pq by simp
      then show ?thesis by simp
    next
      case (Cons a p')
      then have "cs = p' @ kw @ q" using pq by simp
      then show ?thesis using Cons.IH by auto
    qed
  qed
qed

lemma toLowerCase_idem: "toLowerCase (toLowerCase s) = toLowerCase s"
  by (simp add: toLowerCase_def toLowerChar_idem)

lemma mentions_toLowerCase: "mentions kws (toLowerCase s) = mentions kws s"
  by (simp add: mentions_def toLowerCase_idem)

lemma mentions_iff:
  "mentions kws s \<longleftrightarrow> (\<exists>kw\<in>set kws. \<exists>p q. toLowerCase s = p @ kw @ q)"
  by (simp add: mentions_def list_ex_iff str_includes_iff)

section \<open>Facts about the loop\<close>

lemma rule_outcomes:
  obtains (none) "a t d u = Inr None"
  | (some) x where "a t d u = Inr (Some x)"
  | (thrown) e where "a t d u = Inl e"
proof (cases "a t d u")
  case (Inl e)
  then show ?thesis using thrown by blast
next
  case (Inr res)
  then show ?thesis using none some by (cases res) auto
qed

lemma run_rules_Some_iff:
  "run_rules rs t d u = Inr (Some r) \<longleftrightarrow>
     (\<exists>i<length rs. (rs ! i) t d u = Inr (Some r) \<and> (\<forall>j<i. (rs ! j) t d u = Inr None))"
proof (induction rs)
  case Nil
  then show ?case by simp
next
  case (Cons a rs)
  show ?case
  proof (cases rule: rule_outcomes [of a t d u])
    case none
    show ?thesis
    proof
      assume "run_rules (a # rs) t d u = Inr (Some r)"
      then have "run_rules rs t d u = Inr (Some r)" using none by simp
      then obtain i where i: "i < length rs" "(rs ! i) t d u = Inr (Some r)"
        "\<forall>j<i. (rs ! j) t d u = Inr None" using Cons.IH by blast
      have "\<forall>j<Suc i. ((a # rs) ! j) t d u = Inr None"
      proof (intro allI impI)
        fix j assume "j < Suc i"
        then show "((a # rs) ! j) t d u = Inr None"
          using none i(3) by (cases j) auto
      qed
      then have "Suc i < length (a # rs) \<and> ((a # rs) ! Suc i) t d u = Inr (Some r)
          \<and> (\<forall>j<Suc i. ((a # rs) ! j) t d u = Inr None)"
        using i by simp
      then show "\<exists>i<length (a # rs). ((a # rs) ! i) t d u = Inr (Some r)
          \<and> (\<forall>j<i. ((a # rs) ! j) t d u = Inr None)" by blast
    next
      assume "\<exists>i<length (a # rs). ((a # rs) ! i) t d u = Inr (Some r)
          \<and> (\<forall>j<i. ((a # rs) ! j) t d u = Inr None)"
      then obtain i where i: "i < length (a # rs)" "((a # rs) ! i) t d u = Inr (Some r)"
        "\<forall>j<i. ((a # rs) ! j) t d u = Inr None" by blast
      from i(2) none obtain k where k: "i = Suc k" by (cases i) auto
      have "\<forall>j<k. (rs ! j) t d u = Inr None"
      proof (intro allI impI)
        fix j assume "j < k"
        then have "Suc j < i" using k by simp
        then have "((a # rs) ! Suc j) t d u = Inr None" using i(3) by blast
        then show "(rs ! j) t d u = Inr None" by simp
      qed
      then have "run_rules rs t d u = Inr (Some r)"
        using Cons.IH i(1) i(2) k by auto
      then show "run_rules (a # rs) t d u = Inr (Some r)" using none by simp
    qed
  next
    case (some x)
    show ?thesis
    proof
      assume "run_rules (a # rs) t d u = Inr (Some r)"
      then have "x = r" using some by simp
      then have "0 < length (a # rs) \<and> ((a # rs) ! 0) t d u = Inr (Some r)
          \<and> (\<forall>j<(0::nat). ((a # rs) ! j) t d u = Inr None)" using some by simp
      then show "\<exists>i<length (a # rs). ((a # rs) ! i) t d u = Inr (Some r)
          \<and> (\<forall>j<i. ((a # rs) ! j) t d u = Inr None)" by blast
    next
      assume "\<exists>i<length (a # rs). ((a # rs) ! i) t d u = Inr (Some r)
          \<and> (\<forall>j<i. ((a # rs) ! j) t d u = Inr None)"
      then obtain i where i: "i < length (a # rs)" "((a # rs) ! i) t d u = Inr (Some r)"
        "\<forall>j<i. ((a # rs) ! j) t d u = Inr None" by blast
      have "i = 0"
      proof (rule ccontr)
        assume "i \<noteq> 0"
        then have "((a # rs) ! 0) t d u = Inr None" using i(3) by blast
        then show False using some by simp
      qed
      then show "run_rules (a # rs) t d u = Inr (Some r)" using i(2) some by simp
    qed
  next
    case (thrown e)
    have "\<not> (\<exists>i<length (a # rs). ((a # rs) ! i) t d u = Inr (Some r)
          \<and> (\<forall>j<i. ((a # rs) ! j) t d u = Inr None))"
    proof
      assume "\<exists>i<length (a # rs). ((a # rs) ! i) t d u = Inr (Some r)
          \<and> (\<forall>j<i. ((a # rs) ! j) t d u = Inr None)"
      then obtain i where i: "((a # rs) ! i) t d u = Inr (Some r)"
        "\<forall>j<i. ((a # rs) ! j) t d u = Inr None" by blast
      show False
      proof (cases i)
        case 0
        then show False using i(1) thrown by simp
      next
        case (Suc k)
        then have "((a # rs) ! 0) t d u = Inr None" using i(2) by blast
        then show False using thrown by simp
      qed
    qed
    then show ?thesis using thrown by simp
  qed
qed

lemma run_rules_None_iff:
  "run_rules rs t d u = Inr None \<longleftrightarrow> (\<forall>i<length rs. (rs ! i) t d u = Inr None)"
proof (induction rs)
  case Nil
  then show ?case by simp
next
  case (Cons a rs)
  then show ?case
    by (cases rule: rule_outcomes [of a t d u]) (auto simp: All_less_Suc2)
qed

lemma run_rules_prefix:
  "\<forall>p\<in>set pre. p t d u = Inr None \<Longrightarrow> rule t d u = Inr (Some r)
     \<Longrightarrow> run_rules (pre @ rule # rest) t d u = Inr (Some r)"
  by (induction pre) auto

section \<open>Facts about the rules\<close>

lemma get_sim_property:
  "get_property (sim_or_empty d) property =
     Inr (property (case sim d of None \<Rightarrow> empty_sim | Some s \<Rightarrow> s))"
  by (simp add: sim_or_empty_def split: option.split)

lemmas rule_defs =
  ruleProvisioningStuck_def ruleBillingHold_def ruleNormalDelay_def ruleDeviceConfig_def
  rulePaymentOverdue_def ruleSubscriptionEnded_def ruleActivationFailed_def

lemma evaluate_no_sim:
  assumes "sim d = None"
  shows "evaluate t d u =
     Inr (if status d = Some ''restricted'' then Some \<lparr>ruleName = ''payment_overdue'', confidence = 98,
              action = ''route_to_payment_restoration'', simId = None,
              message = MsgOverdue, reasoning = WhyRestricted\<rparr>
          else if status d = Some ''ended'' then Some \<lparr>ruleName = ''subscription_ended'', confidence = 100, action = ''inform_only'',
              simId = None, message = MsgCanceled, reasoning = WhyEnded\<rparr>
          else if mentions activationFailedKeyword u then Some \<lparr>ruleName = ''activation_failed'', confidence = 85, action = ''reprovision'',
              simId = None, message = MsgActivationReset, reasoning = WhyPendingTwenty\<rparr>
          else None)"
  using assms
  by (simp add: evaluate_def rules_def rule_defs get_sim_property empty_sim_def Let_def)

lemma evaluate_with_sim:
  assumes "sim d = Some s"
  shows "evaluate t d u =
     Inr (if sim_status s = Some ''inactive'' \<and> status d = Some ''pending''
             \<and> js_gt (minutesSinceActivation (at_stuck_check t) d) 15
          then Some \<lparr>ruleName = ''provisioning_stuck'', confidence = 95, action = ''reprovision'',
              simId = sim_id s, message = MsgActivationReset,
              reasoning = WhyPendingFor (minutesSinceActivation (at_stuck_reasoning t) d)\<rparr>
          else if sim_status s = Some ''inactive'' \<and> status d = Some ''initiated''
          then Some \<lparr>ruleName = ''billing_hold'', confidence = 98, action = ''route_to_payment'',
              simId = None, message = MsgPaymentHold, reasoning = WhyInitiated\<rparr>
          else if sim_status s = Some ''inactive'' \<and> status d = Some ''pending''
             \<and> js_lt (minutesSinceActivation (at_delay t) d) 15
          then Some \<lparr>ruleName = ''normal_delay'', confidence = 90, action = ''wait'',
              simId = None, message = MsgWait (minutesRemaining (minutesSinceActivation (at_delay t) d)), reasoning = WhyOnlyElapsed (minutesSinceActivation (at_delay t) d)\<rparr>
          else if sim_status s = Some ''active'' \<and> status d = Some ''active''
             \<and> mentions noServiceKeywords u
          then Some \<lparr>ruleName = ''device_config'', confidence = 85,
              action = ''route_to_settings_guide'', simId = None,
              message = MsgDeviceSettings, reasoning = WhyDeviceConfig\<rparr>
          else if status d = Some ''restricted'' then Some \<lparr>ruleName = ''payment_overdue'', confidence = 98,
              action = ''route_to_payment_restoration'', simId = None,
              message = MsgOverdue, reasoning = WhyRestricted\<rparr>
          else if status d = Some ''ended'' then Some \<lparr>ruleName = ''subscription_ended'', confidence = 100, action = ''inform_only'',
              simId = None, message = MsgCanceled, reasoning = WhyEnded\<rparr>
          else if mentions activationFailedKeyword u then Some \<lparr>ruleName = ''activation_failed'', confidence = 85, action = ''reprovision'',
              simId = None, message = MsgActivationReset, reasoning = WhyPendingTwenty\<rparr>
          else None)"
  using assms
  by (simp add: evaluate_def rules_def rule_defs get_sim_property Let_def)

lemma evaluate_total: "evaluate t d u \<noteq> Inl e"
  by (cases "sim d") (simp_all add: evaluate_no_sim evaluate_with_sim)

lemma rule_names:
  assumes "i < 7" and "(rules ! i) t d u = Inr (Some r)"
  shows "ruleName r = [''provisioning_stuck'', ''billing_hold'', ''normal_delay'',
           ''device_config'', ''payment_overdue'', ''subscription_ended'',
           ''activation_failed''] ! i"
proof -
  from assms(1) consider "i = 0" | "i = 1" | "i = 2" | "i = 3" | "i = 4" | "i = 5" | "i = 6"
    by linarith
  then show ?thesis
    using assms(2)
    by cases (auto simp: rules_def rule_defs get_sim_property Let_def split: if_splits)
qed

lemma rules_length: "length rules = 7"
  by (simp add: rules_def)

lemma evaluate_Some_iff:
  "evaluate t d u = Inr (Some r) \<longleftrightarrow>
     (\<exists>i<7. (rules ! i) t d u = Inr (Some r) \<and> (\<forall>j<i. (rules ! j) t d u = Inr None))"
  using run_rules_Some_iff [of rules t d u r] by (simp add: evaluate_def rules_length)

lemma evaluate_None_iff:
  "evaluate t d u = Inr None \<longleftrightarrow> (\<forall>i<7. (rules ! i) t d u = Inr None)"
  using run_rules_None_iff [of rules t d u] by (simp add: evaluate_def rules_length)

lemma rule_order_distinct:
  "distinct [''provisioning_stuck'', ''billing_hold'', ''normal_delay'',
           ''device_config'', ''payment_overdue'', ''subscription_ended'',
           ''activation_failed'']"
  by simp

lemma earlier_rule_wins:
  assumes "i < j" and "j < 7" and "(rules ! i) t d u = Inr (Some ri)" and "(rules ! j) t d u = Inr (Some rj)"
  shows "evaluate t d u \<noteq> Inr (Some rj)"
proof
  assume "evaluate t d u = Inr (Some rj)"
  then obtain k where k: "k < 7" "(rules ! k) t d u = Inr (Some rj)"
    "\<forall>m<k. (rules ! m) t d u = Inr None" using evaluate_Some_iff by blast
  have "\<not> i < k" using k(3) assms(3) by auto
  then have kj: "k \<noteq> j" using assms(1) by simp
  define names where "names = [''provisioning_stuck'', ''billing_hold'', ''normal_delay'',
           ''device_config'', ''payment_overdue'', ''subscription_ended'',
           ''activation_failed'']"
  have dist: "distinct names" unfolding names_def by (rule rule_order_distinct)
  have len: "length names = 7" unfolding names_def by simp
  have "ruleName rj = names ! k" unfolding names_def using rule_names [OF k(1) k(2)] .
  moreover have "ruleName rj = names ! j"
    unfolding names_def using rule_names [OF assms(2) assms(4)] .
  ultimately have "names ! k = names ! j" by simp
  then have "k = j"
    using nth_eq_iff_index_eq [OF dist, of k j] k(1) assms(2) len by simp
  then show False using kj by simp
qed

lemma later_rules_not_consulted:
  assumes "k < 7" and "(rules ! k) t d u = Inr (Some r)" and "\<forall>j<k. (rules ! j) t d u = Inr None"
  shows "run_rules (take k rules @ rules ! k # rest) t d u = Inr (Some r)"
proof -
  have "\<forall>p\<in>set (take k rules). p t d u = Inr None"
  proof
    fix p assume "p \<in> set (take k rules)"
    then obtain j where j: "j < length (take k rules)" "take k rules ! j = p"
      unfolding in_set_conv_nth by blast
    from j(1) have jk: "j < k" by simp
    then have "rules ! j = p" using j(2) by simp
    moreover have "(rules ! j) t d u = Inr None" using assms(3) jk by blast
    ultimately show "p t d u = Inr None" by simp
  qed
  then show ?thesis
    using assms(2) by (rule run_rules_prefix [of "take k rules" t d u "rules ! k" r rest])
qed

lemma rules_toLowerCase:
  "ruleProvisioningStuck t d (toLowerCase u) = ruleProvisioningStuck t d u"
  "ruleBillingHold t d (toLowerCase u) = ruleBillingHold t d u"
  "ruleNormalDelay t d (toLowerCase u) = ruleNormalDelay t d u"
  "ruleDeviceConfig t d (toLowerCase u) = ruleDeviceConfig t d u"
  "rulePaymentOverdue t d (toLowerCase u) = rulePaymentOverdue t d u"
  "ruleSubscriptionEnded t d (toLowerCase u) = ruleSubscriptionEnded t d u"
  "ruleActivationFailed t d (toLowerCase u) = ruleActivationFailed t d u"
  by (simp_all add: rule_defs mentions_toLowerCase)

lemma evaluate_confidence_at_least_85:
  assumes "evaluate t d u = Inr (Some r)"
  shows "85 \<le> confidence r"
  using assms
  by (cases "sim d") (auto simp: evaluate_no_sim evaluate_with_sim split: if_splits)

lemma minutes_mono:
  assumes "t1 \<le> t2" and "minutesSinceActivation t2 d = Num m"
  shows "\<exists>m'. minutesSinceActivation t1 d = Num m' \<and> m' \<le> m"
proof (cases "js_or (createdAt d) (sim_createdAt_opt d)")
  case None
  then show ?thesis using assms(2) by (simp add: minutesSinceActivation_def)
next
  case (Some c)
  show ?thesis
  proof (cases c)
    case (Instant i)
    have "(t1 - i) div 60000 \<le> (t2 - i) div 60000"
      using assms(1) by (intro zdiv_mono1) simp_all
    then show ?thesis using Some Instant assms(2) by (simp add: minutesSinceActivation_def)
  next
    case InvalidDate
    then show ?thesis using Some assms(2) by (simp add: minutesSinceActivation_def)
  qed
qed

lemma no_service_example: "mentions noServiceKeywords ''I have NO SERVICE at all''"
  by code_simp

lemma example_active_no_rule:
  "evaluate (clock_from 1700001200000) example_active ''getting a weird error message''
     = Inr None"
  by code_simp

lemma example_stuck_rule:
  "evaluate (clock_from 1700001200000) example_stuck ''my eSIM has been stuck for 2 hours'' =
     Inr (Some \<lparr>ruleName = ''provisioning_stuck'', confidence = 95, action = ''reprovision'',
           simId = Some ''sim_1'', message = MsgActivationReset,
           reasoning = WhyPendingFor (Num 20)\<rparr>)"
  by code_simp

section \<open>The claims\<close>

text \<open>
  C1. The claim: a record with an inactive SIM and a pending subscription whose
  activation started exactly 15 whole minutes ago gets the diagnosis \<open>normal_delay\<close>.
  It fails: at 15 minutes neither \<open>provisioning_stuck\<close> (more than 15) nor
  \<open>normal_delay\<close> (fewer than 15) matches, and a text without a keyword gets no match.
  Here every reading of the clock is in the fifteenth minute.
\<close>

theorem evaluate_fifteen_minutes_no_match:
  "minutesSinceActivation 1700000900000
     \<lparr>status = Some ''pending'', createdAt = Some (Instant 1700000000000),
      sim = Some \<lparr>sim_id = Some ''sim_1'', sim_status = Some ''inactive'',
                  sim_createdAt = None\<rparr>\<rparr> = Num 15
   \<and> minutesSinceActivation 1700000900002
     \<lparr>status = Some ''pending'', createdAt = Some (Instant 1700000000000),
      sim = Some \<lparr>sim_id = Some ''sim_1'', sim_status = Some ''inactive'',
                  sim_createdAt = None\<rparr>\<rparr> = Num 15
   \<and> evaluate
     \<lparr>at_stuck_check = 1700000900000, at_stuck_reasoning = 1700000900001,
      at_delay = 1700000900002\<rparr>
     \<lparr>status = Some ''pending'', createdAt = Some (Instant 1700000000000),
      sim = Some \<lparr>sim_id = Some ''sim_1'', sim_status = Some ''inactive'',
                  sim_createdAt = None\<rparr>\<rparr>
     ''my eSIM is still activating'' = Inr None"
  by code_simp

text \<open>
  C1, as the code has it. Take a record with an inactive SIM and a pending subscription,
  and a clock that does not run backwards between the reading of rule 1 and the reading
  of rule 3. When exactly 15 whole minutes have elapsed at the reading of rule 3, rules 1
  and 3 both abstain and the result is that of the keyword rule 7 (no match unless the
  text mentions "activation failed"). When fewer than 15 whole minutes have elapsed at
  the reading of rule 3, the result is \<open>normal_delay\<close>, action \<open>wait\<close>, confidence 90.
\<close>

theorem evaluate_pending_inactive_boundary:
  assumes "sim d = Some s" and "sim_status s = Some ''inactive''"
    and "status d = Some ''pending''"
    and "at_stuck_check t \<le> at_delay t"
  shows "(minutesSinceActivation (at_delay t) d = Num 15 \<longrightarrow>
            ruleProvisioningStuck t d u = Inr None \<and> ruleNormalDelay t d u = Inr None
            \<and> evaluate t d u = ruleActivationFailed t d u)
       \<and> (\<forall>m. minutesSinceActivation (at_delay t) d = Num m \<and> m < 15 \<longrightarrow>
            evaluate t d u =
              Inr (Some \<lparr>ruleName = ''normal_delay'', confidence = 90, action = ''wait'',
                    simId = None, message = MsgWait (Num (15 - m)),
                    reasoning = WhyOnlyElapsed (Num m)\<rparr>))"
proof (intro conjI allI impI)
  assume m15: "minutesSinceActivation (at_delay t) d = Num 15"
  from minutes_mono [OF assms(4) m15] obtain m' where
    m': "minutesSinceActivation (at_stuck_check t) d = Num m'" "m' \<le> 15" by blast
  show "ruleProvisioningStuck t d u = Inr None"
    using assms m' by (simp add: ruleProvisioningStuck_def get_sim_property)
  show "ruleNormalDelay t d u = Inr None"
    using assms m15 by (simp add: ruleNormalDelay_def get_sim_property)
  show "evaluate t d u = ruleActivationFailed t d u"
    using assms m' m15 by (simp add: evaluate_with_sim ruleActivationFailed_def)
next
  fix m
  assume h: "minutesSinceActivation (at_delay t) d = Num m \<and> m < 15"
  then have m: "minutesSinceActivation (at_delay t) d = Num m" and less: "m < 15"
    by simp_all
  from minutes_mono [OF assms(4) m] obtain m' where
    m': "minutesSinceActivation (at_stuck_check t) d = Num m'" "m' \<le> m" by blast
  show "evaluate t d u =
          Inr (Some \<lparr>ruleName = ''normal_delay'', confidence = 90, action = ''wait'',
                simId = None, message = MsgWait (Num (15 - m)),
                reasoning = WhyOnlyElapsed (Num m)\<rparr>)"
    using assms m m' less by (simp add: evaluate_with_sim)
qed

theorem evaluate_pending_inactive_boundary_witness:
  "minutesSinceActivation 1700000899999 example_stuck = Num 14
   \<and> minutesSinceActivation 1700000900001 example_stuck = Num 15
   \<and> evaluate \<lparr>at_stuck_check = 1700000899999, at_stuck_reasoning = 1700000900000,
               at_delay = 1700000900001\<rparr> example_stuck ''is it done yet'' = Inr None
   \<and> minutesSinceActivation 1700000840002 example_stuck = Num 14
   \<and> evaluate (clock_from 1700000840000) example_stuck ''is it done yet'' =
        Inr (Some \<lparr>ruleName = ''normal_delay'', confidence = 90, action = ''wait'',
              simId = None, message = MsgWait (Num 1), reasoning = WhyOnlyElapsed (Num 14)\<rparr>)"
proof -
  let ?s = "\<lparr>sim_id = Some ''sim_1'', sim_status = Some ''inactive'', sim_createdAt = None\<rparr>"
  let ?t = "\<lparr>at_stuck_check = 1700000899999, at_stuck_reasoning = 1700000900000,
               at_delay = 1700000900001\<rparr>"
  have h1: "sim example_stuck = Some ?s" by (simp add: example_stuck_def)
  have h2: "sim_status ?s = Some ''inactive''" by simp
  have h3: "status example_stuck = Some ''pending''" by (simp add: example_stuck_def)
  have o1: "at_stuck_check ?t \<le> at_delay ?t" by simp
  have o2: "at_stuck_check (clock_from 1700000840000) \<le> at_delay (clock_from 1700000840000)"
    by (simp add: clock_from_def)
  have m14a: "minutesSinceActivation 1700000899999 example_stuck = Num 14"
    by (simp add: minutesSinceActivation_def example_stuck_def)
  have m15: "minutesSinceActivation 1700000900001 example_stuck = Num 15"
    by (simp add: minutesSinceActivation_def example_stuck_def)
  have m14: "minutesSinceActivation 1700000840002 example_stuck = Num 14"
    by (simp add: minutesSinceActivation_def example_stuck_def)
  have nokw: "ruleActivationFailed ?t example_stuck ''is it done yet'' = Inr None"
    by code_simp
  from evaluate_pending_inactive_boundary [OF h1 h2 h3 o1, of "''is it done yet''"]
    evaluate_pending_inactive_boundary [OF h1 h2 h3 o2, of "''is it done yet''"]
    m14a m15 m14 nokw
  show ?thesis by (simp add: clock_from_def)
qed

text \<open>
  C2. \<open>evaluate\<close> goes through the seven rules in the order \<open>provisioning_stuck\<close>,
  \<open>billing_hold\<close>, \<open>normal_delay\<close>, \<open>device_config\<close>, \<open>payment_overdue\<close>,
  \<open>subscription_ended\<close>, \<open>activation_failed\<close> and returns the result of the first
  rule that matches: the result is \<open>Some r\<close> exactly when some rule returns \<open>r\<close> and
  every rule before it abstains, and there is no result exactly when all seven abstain.
  When two rules match, the later one's result is not returned. The rules after the
  first match have no part in the result: it stays the same when they are replaced by
  any others.
\<close>

theorem evaluate_first_match:
  "length rules = 7
   \<and> (\<forall>i<7. \<forall>r. (rules ! i) t d u = Inr (Some r) \<longrightarrow>
         ruleName r = [''provisioning_stuck'', ''billing_hold'', ''normal_delay'',
           ''device_config'', ''payment_overdue'', ''subscription_ended'',
           ''activation_failed''] ! i)
   \<and> (\<forall>r. evaluate t d u = Inr (Some r) \<longleftrightarrow>
         (\<exists>i<7. (rules ! i) t d u = Inr (Some r) \<and> (\<forall>j<i. (rules ! j) t d u = Inr None)))
   \<and> (evaluate t d u = Inr None \<longleftrightarrow> (\<forall>i<7. (rules ! i) t d u = Inr None))
   \<and> (\<forall>i j ri rj. i < j \<and> j < 7 \<and> (rules ! i) t d u = Inr (Some ri) \<and> (rules ! j) t d u = Inr (Some rj)
         \<longrightarrow> evaluate t d u \<noteq> Inr (Some rj))
   \<and> (\<forall>k r rest. k < 7 \<and> (rules ! k) t d u = Inr (Some r) \<and> (\<forall>j<k. (rules ! j) t d u = Inr None)
         \<longrightarrow> run_rules (take k rules @ rules ! k # rest) t d u = Inr (Some r))"
proof -
  have a: "length rules = 7" by (rule rules_length)
  have b: "\<forall>i<7. \<forall>r. (rules ! i) t d u = Inr (Some r) \<longrightarrow>
         ruleName r = [''provisioning_stuck'', ''billing_hold'', ''normal_delay'',
           ''device_config'', ''payment_overdue'', ''subscription_ended'',
           ''activation_failed''] ! i"
  proof (intro allI impI)
    fix i r assume "i < 7" and "(rules ! i) t d u = Inr (Some r)"
    then show "ruleName r = [''provisioning_stuck'', ''billing_hold'', ''normal_delay'',
           ''device_config'', ''payment_overdue'', ''subscription_ended'',
           ''activation_failed''] ! i" by (rule rule_names)
  qed
  have c: "\<forall>r. evaluate t d u = Inr (Some r) \<longleftrightarrow>
         (\<exists>i<7. (rules ! i) t d u = Inr (Some r) \<and> (\<forall>j<i. (rules ! j) t d u = Inr None))"
    by (intro allI) (rule evaluate_Some_iff)
  have d: "evaluate t d u = Inr None \<longleftrightarrow> (\<forall>i<7. (rules ! i) t d u = Inr None)"
    by (rule evaluate_None_iff)
  have e: "\<forall>i j ri rj. i < j \<and> j < 7 \<and> (rules ! i) t d u = Inr (Some ri)
         \<and> (rules ! j) t d u = Inr (Some rj) \<longrightarrow> evaluate t d u \<noteq> Inr (Some rj)"
  proof (intro allI impI)
    fix i j ri rj
    assume h: "i < j \<and> j < 7 \<and> (rules ! i) t d u = Inr (Some ri) \<and> (rules ! j) t d u = Inr (Some rj)"
    show "evaluate t d u \<noteq> Inr (Some rj)"
      using h earlier_rule_wins [of i j t d u ri rj] by simp
  qed
  have f: "\<forall>k r rest. k < 7 \<and> (rules ! k) t d u = Inr (Some r)
         \<and> (\<forall>j<k. (rules ! j) t d u = Inr None)
         \<longrightarrow> run_rules (take k rules @ rules ! k # rest) t d u = Inr (Some r)"
  proof (intro allI impI)
    fix k r rest
    assume h: "k < 7 \<and> (rules ! k) t d u = Inr (Some r) \<and> (\<forall>j<k. (rules ! j) t d u = Inr None)"
    show "run_rules (take k rules @ rules ! k # rest) t d u = Inr (Some r)"
      using h later_rules_not_consulted [of k t d u r rest] by simp
  qed
  show ?thesis
    by (intro conjI) (rule a, rule b, rule c, rule d, rule e, rule f)
qed

theorem evaluate_first_match_witness:
  "(rules ! 4) (clock_from 1700001200000) (example_active\<lparr>status := Some ''restricted''\<rparr>)
       ''activation failed again'' =
     Inr (Some \<lparr>ruleName = ''payment_overdue'', confidence = 98,
              action = ''route_to_payment_restoration'', simId = None,
              message = MsgOverdue, reasoning = WhyRestricted\<rparr>)
   \<and> (rules ! 6) (clock_from 1700001200000) (example_active\<lparr>status := Some ''restricted''\<rparr>)
       ''activation failed again'' =
     Inr (Some \<lparr>ruleName = ''activation_failed'', confidence = 85, action = ''reprovision'',
              simId = None, message = MsgActivationReset, reasoning = WhyPendingTwenty\<rparr>)
   \<and> evaluate (clock_from 1700001200000) (example_active\<lparr>status := Some ''restricted''\<rparr>)
       ''activation failed again'' \<noteq>
     Inr (Some \<lparr>ruleName = ''activation_failed'', confidence = 85, action = ''reprovision'',
              simId = None, message = MsgActivationReset, reasoning = WhyPendingTwenty\<rparr>)"
proof -
  let ?t = "clock_from 1700001200000"
  let ?d = "example_active\<lparr>status := Some ''restricted''\<rparr>"
  let ?u = "''activation failed again''"
  let ?ri = "\<lparr>ruleName = ''payment_overdue'', confidence = 98,
              action = ''route_to_payment_restoration'', simId = None,
              message = MsgOverdue, reasoning = WhyRestricted\<rparr>"
  let ?rj = "\<lparr>ruleName = ''activation_failed'', confidence = 85, action = ''reprovision'',
              simId = None, message = MsgActivationReset, reasoning = WhyPendingTwenty\<rparr>"
  have r4: "(rules ! 4) ?t ?d ?u = Inr (Some ?ri)"
    by code_simp
  have r6: "(rules ! 6) ?t ?d ?u = Inr (Some ?rj)"
    by code_simp
  have "\<forall>i j ri rj. i < j \<and> j < 7 \<and> (rules ! i) ?t ?d ?u = Inr (Some ri)
         \<and> (rules ! j) ?t ?d ?u = Inr (Some rj)
         \<longrightarrow> evaluate ?t ?d ?u \<noteq> Inr (Some rj)"
    using evaluate_first_match [of ?t ?d ?u] by (elim conjE)
  then have "(4::nat) < 6 \<and> (6::nat) < 7 \<and> (rules ! 4) ?t ?d ?u = Inr (Some ?ri)
         \<and> (rules ! 6) ?t ?d ?u = Inr (Some ?rj)
         \<longrightarrow> evaluate ?t ?d ?u \<noteq> Inr (Some ?rj)"
    by (elim allE)
  then have "evaluate ?t ?d ?u \<noteq> Inr (Some ?rj)"
    using r4 r6 by simp
  then show ?thesis using r4 r6 by simp
qed

text \<open>
  C3. When the rule engine has no match and the reasoner returns a diagnosis with
  confidence \<open>c\<close>, the handler answers with that diagnosis; its action is \<open>escalate\<close>
  when \<open>c\<close> is below 80, whatever the reasoner recommended, and the recommended action
  when \<open>c\<close> is 80 or more. So 79 is escalated and 80 keeps the recommended action.
\<close>

theorem confidence_gate:
  assumes "req_subscriptionId req = Some sid" and "sid \<noteq> []"
    and "req_userIssue req = Some issue" and "issue \<noteq> []"
    and "getSubscription (gigs e) sid = SubscriptionOk sub"
    and "evaluate (clock e) sub issue = Inr None"
    and "llm e sub issue = LlmOk dg"
    and "llm_confidence dg = Num c"
  shows "diagnose_handler e req = LlmAnswer (llm_answer e sid sub dg)
       \<and> lb_confidence (llm_answer e sid sub dg) = Num c
       \<and> (c < 80 \<longrightarrow> lb_action (llm_answer e sid sub dg) = ''escalate'')
       \<and> (80 \<le> c \<longrightarrow> lb_action (llm_answer e sid sub dg) = recommendedAction dg)"
  using assms by (simp add: diagnose_handler_def llm_answer_def Let_def)

theorem confidence_gate_witness:
  "lb_action (llm_answer (example_env example_active (example_diagnosis 79))
      ''sub_test_error'' example_active (example_diagnosis 79)) = ''escalate''
   \<and> lb_action (llm_answer (example_env example_active (example_diagnosis 80))
      ''sub_test_error'' example_active (example_diagnosis 80)) = ''reprovision''
   \<and> diagnose_handler (example_env example_active (example_diagnosis 79))
        \<lparr>req_subscriptionId = Some ''sub_test_error'',
         req_userIssue = Some ''getting a weird error message''\<rparr> =
      LlmAnswer (llm_answer (example_env example_active (example_diagnosis 79))
        ''sub_test_error'' example_active (example_diagnosis 79))"
proof -
  let ?req = "\<lparr>req_subscriptionId = Some ''sub_test_error'',
               req_userIssue = Some ''getting a weird error message''\<rparr>"
  have g: "\<And>c. getSubscription (gigs (example_env example_active (example_diagnosis c)))
      ''sub_test_error'' = SubscriptionOk example_active"
    by (simp add: getSubscription_def example_env_def)
  have ev: "\<And>c. evaluate (clock (example_env example_active (example_diagnosis c)))
      example_active ''getting a weird error message'' = Inr None"
    using example_active_no_rule by (simp add: example_env_def)
  have l: "\<And>c. llm (example_env example_active (example_diagnosis c)) example_active
      ''getting a weird error message'' = LlmOk (example_diagnosis c)"
    by (simp add: example_env_def)
  have c: "\<And>c. llm_confidence (example_diagnosis c) = Num c"
    by (simp add: example_diagnosis_def)
  have "req_subscriptionId ?req = Some ''sub_test_error''" "''sub_test_error'' \<noteq> []"
    "req_userIssue ?req = Some ''getting a weird error message''"
    "''getting a weird error message'' \<noteq> []" by simp_all
  from confidence_gate [OF this g ev l c, of 79] confidence_gate [OF this g ev l c, of 80]
  show ?thesis by (simp add: example_diagnosis_def)
qed

text \<open>
  C4. The claim: the elapsed minutes are never negative, and are 0 when neither
  \<^verbatim>\<open>createdAt\<close> is present. The first part fails for a \<^verbatim>\<open>createdAt\<close> that lies after
  the clock reading: two minutes ahead gives \<open>-2\<close>.
\<close>

theorem minutesSinceActivation_negative:
  "minutesSinceActivation 1700000000000
     \<lparr>status = Some ''pending'', createdAt = Some (Instant 1700000120000), sim = None\<rparr>
   = Num (- 2)"
  by (simp add: minutesSinceActivation_def)

text \<open>
  C4, as the code has it. The elapsed minutes are 0 when neither \<^verbatim>\<open>createdAt\<close> is
  present. When the activation start is the instant \<open>c\<close>, they are the difference
  between the clock reading and \<open>c\<close> in whole minutes, rounded down, which is not
  negative when \<open>c\<close> is not after the clock reading.
\<close>

theorem minutesSinceActivation_value:
  "(createdAt d = None \<and> sim_createdAt_opt d = None \<longrightarrow> minutesSinceActivation t d = Num 0)
   \<and> (\<forall>c. js_or (createdAt d) (sim_createdAt_opt d) = Some (Instant c) \<longrightarrow>
        minutesSinceActivation t d = Num ((t - c) div 60000)
        \<and> (c \<le> t \<longrightarrow> js_ge (minutesSinceActivation t d) 0))"
  by (auto simp: minutesSinceActivation_def)

theorem minutesSinceActivation_value_witness:
  "minutesSinceActivation 1700001200000
      \<lparr>status = Some ''pending'', createdAt = None, sim = None\<rparr> = Num 0
   \<and> minutesSinceActivation 1700001200000 example_stuck = Num 20
   \<and> js_ge (minutesSinceActivation 1700001200000 example_stuck) 0"
proof -
  let ?d0 = "\<lparr>status = Some ''pending'', createdAt = None, sim = None\<rparr>"
  have a: "createdAt ?d0 = None \<and> sim_createdAt_opt ?d0 = None"
    by (simp add: sim_createdAt_opt_def)
  have b: "js_or (createdAt example_stuck) (sim_createdAt_opt example_stuck)
      = Some (Instant 1700000000000)"
    by (simp add: example_stuck_def)
  from minutesSinceActivation_value [of ?d0 1700001200000]
    minutesSinceActivation_value [of example_stuck 1700001200000] a b
  show ?thesis by simp
qed

text \<open>
  C5. The claim: every rule match has confidence 85 or more, and a match whose action is
  \<open>reprovision\<close>, rule 7 included, makes the handler call the reprovision. The handler
  calls it only when the result carries a SIM identifier, and rule 7, unlike rule 1,
  does not put one into its result. For an active subscription with SIM \<open>sim_1\<close> and the
  text "my activation failed" the answer has action \<open>reprovision\<close>, no action result and
  no reprovision among its API calls.
\<close>

theorem activation_failed_without_reprovision:
  "diagnose_handler (example_env example_active (example_diagnosis 90))
     \<lparr>req_subscriptionId = Some ''sub_1'', req_userIssue = Some ''my activation failed''\<rparr>
   = RuleEngine \<lparr>re_method = ''rule_engine'', re_rule = ''activation_failed'',
        re_confidence = 85, re_action = ''reprovision'', re_message = MsgActivationReset,
        re_reasoning = WhyPendingTwenty, re_actionResult = None,
        re_apiCalls = [''GET /subscriptions/sub_1'']\<rparr>"
  by code_simp

text \<open>
  C6. For a subscription that is active with an active SIM, and a text whose lower-case
  form contains none of "no service", "no data", "not working", "no signal" and does not
  contain "activation failed", \<open>evaluate\<close> has no match.
\<close>

theorem evaluate_active_no_keyword:
  assumes "status d = Some ''active''" and "sim d = Some s" and "sim_status s = Some ''active''"
    and "\<forall>kw \<in> set [''no service'', ''no data'', ''not working'', ''no signal''].
           \<not> str_includes (toLowerCase u) kw"
    and "\<not> str_includes (toLowerCase u) ''activation failed''"
  shows "evaluate t d u = Inr None"
  using assms
  by (simp add: evaluate_with_sim mentions_def noServiceKeywords_def
        activationFailedKeyword_def)

theorem evaluate_active_no_keyword_witness:
  "status example_active = Some ''active''
   \<and> \<not> str_includes (toLowerCase ''It just does NOT work'') ''no service''
   \<and> \<not> str_includes (toLowerCase ''It just does NOT work'') ''no data''
   \<and> \<not> str_includes (toLowerCase ''It just does NOT work'') ''not working''
   \<and> \<not> str_includes (toLowerCase ''It just does NOT work'') ''no signal''
   \<and> \<not> str_includes (toLowerCase ''It just does NOT work'') ''activation failed''
   \<and> evaluate (clock_from 1700001200000) example_active ''It just does NOT work'' = Inr None"
proof -
  let ?s = "\<lparr>sim_id = Some ''sim_1'', sim_status = Some ''active'', sim_createdAt = None\<rparr>"
  have h1: "status example_active = Some ''active''" by (simp add: example_active_def)
  have h2: "sim example_active = Some ?s" by (simp add: example_active_def)
  have h3: "sim_status ?s = Some ''active''" by simp
  have h4: "\<forall>kw \<in> set [''no service'', ''no data'', ''not working'', ''no signal''].
           \<not> str_includes (toLowerCase ''It just does NOT work'') kw"
    by code_simp
  have h5: "\<not> str_includes (toLowerCase ''It just does NOT work'') ''activation failed''"
    by code_simp
  from evaluate_active_no_keyword [OF h1 h2 h3 h4 h5, of "clock_from 1700001200000"] h1 h4 h5
  show ?thesis by simp
qed

text \<open>
  C7. The rules see the text only in lower case: \<open>evaluate\<close> gives the same result for
  a text and for its lower-case form, and the lower-case form of the capital letters A
  to Z is a to z, with the small letters and the space unchanged. A keyword matches
  exactly when it occurs in the lower-case text as a contiguous part, with anything
  before and after it: rule 4 matches exactly when the SIM and the subscription are
  active and one of its four keywords occurs, rule 7 exactly when "activation failed"
  occurs. For a subscription that is active with an active SIM, the text
  "I have NO SERVICE at all" gets \<open>device_config\<close>, action \<open>route_to_settings_guide\<close>,
  confidence 85.
\<close>

theorem evaluate_toLowerCase:
  "evaluate t d (toLowerCase u) = evaluate t d u
   \<and> toLowerCase ''ABCDEFGHIJKLMNOPQRSTUVWXYZ'' = ''abcdefghijklmnopqrstuvwxyz''
   \<and> toLowerCase ''abcdefghijklmnopqrstuvwxyz '' = ''abcdefghijklmnopqrstuvwxyz ''
   \<and> ((\<exists>r. ruleDeviceConfig t d u = Inr (Some r)) \<longleftrightarrow>
        (\<exists>s. sim d = Some s \<and> sim_status s = Some ''active'') \<and> status d = Some ''active''
        \<and> (\<exists>kw\<in>set [''no service'', ''no data'', ''not working'', ''no signal''].
              \<exists>p q. toLowerCase u = p @ kw @ q))
   \<and> ((\<exists>r. ruleActivationFailed t d u = Inr (Some r)) \<longleftrightarrow>
        (\<exists>p q. toLowerCase u = p @ ''activation failed'' @ q))
   \<and> (\<forall>s. sim d = Some s \<and> sim_status s = Some ''active'' \<and> status d = Some ''active'' \<longrightarrow>
        (evaluate t d u = Inr (Some \<lparr>ruleName = ''device_config'', confidence = 85,
              action = ''route_to_settings_guide'', simId = None,
              message = MsgDeviceSettings, reasoning = WhyDeviceConfig\<rparr>)
          \<longleftrightarrow> (\<exists>kw\<in>set [''no service'', ''no data'', ''not working'', ''no signal''].
                \<exists>p q. toLowerCase u = p @ kw @ q))
        \<and> evaluate t d ''I have NO SERVICE at all'' = Inr (Some \<lparr>ruleName = ''device_config'', confidence = 85,
              action = ''route_to_settings_guide'', simId = None,
              message = MsgDeviceSettings, reasoning = WhyDeviceConfig\<rparr>))"
proof (intro conjI allI impI)
  show "evaluate t d (toLowerCase u) = evaluate t d u"
    by (simp only: evaluate_def rules_def run_rules.simps rules_toLowerCase)
next
  show "toLowerCase ''ABCDEFGHIJKLMNOPQRSTUVWXYZ'' = ''abcdefghijklmnopqrstuvwxyz''"
    by code_simp
next
  show "toLowerCase ''abcdefghijklmnopqrstuvwxyz '' = ''abcdefghijklmnopqrstuvwxyz ''"
    by code_simp
next
  show "(\<exists>r. ruleDeviceConfig t d u = Inr (Some r)) \<longleftrightarrow>
        (\<exists>s. sim d = Some s \<and> sim_status s = Some ''active'') \<and> status d = Some ''active''
        \<and> (\<exists>kw\<in>set [''no service'', ''no data'', ''not working'', ''no signal''].
              \<exists>p q. toLowerCase u = p @ kw @ q)"
    using mentions_iff [of noServiceKeywords u]
    by (cases "sim d")
      (simp_all add: ruleDeviceConfig_def get_sim_property empty_sim_def Let_def
        noServiceKeywords_def)
next
  show "(\<exists>r. ruleActivationFailed t d u = Inr (Some r)) \<longleftrightarrow>
        (\<exists>p q. toLowerCase u = p @ ''activation failed'' @ q)"
    using mentions_iff [of activationFailedKeyword u]
    by (simp add: ruleActivationFailed_def Let_def activationFailedKeyword_def)
next
  fix s
  assume h: "sim d = Some s \<and> sim_status s = Some ''active'' \<and> status d = Some ''active''"
  show "evaluate t d u = Inr (Some \<lparr>ruleName = ''device_config'', confidence = 85,
              action = ''route_to_settings_guide'', simId = None,
              message = MsgDeviceSettings, reasoning = WhyDeviceConfig\<rparr>)
          \<longleftrightarrow> (\<exists>kw\<in>set [''no service'', ''no data'', ''not working'', ''no signal''].
                \<exists>p q. toLowerCase u = p @ kw @ q)"
    using h mentions_iff [of noServiceKeywords u]
    by (simp add: evaluate_with_sim noServiceKeywords_def)
  show "evaluate t d ''I have NO SERVICE at all'' = Inr (Some \<lparr>ruleName = ''device_config'', confidence = 85,
              action = ''route_to_settings_guide'', simId = None,
              message = MsgDeviceSettings, reasoning = WhyDeviceConfig\<rparr>)"
    using h no_service_example by (simp add: evaluate_with_sim)
qed

theorem evaluate_toLowerCase_witness:
  "evaluate (clock_from 1700001200000) example_active ''I have NO SERVICE at all'' =
        Inr (Some \<lparr>ruleName = ''device_config'', confidence = 85,
              action = ''route_to_settings_guide'', simId = None,
              message = MsgDeviceSettings, reasoning = WhyDeviceConfig\<rparr>)
   \<and> toLowerCase ''My phone is NOT Working'' = ''my '' @ ''phone is '' @ ''not working'' @ []
   \<and> evaluate (clock_from 1700001200000) example_active ''My phone is NOT Working'' =
        Inr (Some \<lparr>ruleName = ''device_config'', confidence = 85,
              action = ''route_to_settings_guide'', simId = None,
              message = MsgDeviceSettings, reasoning = WhyDeviceConfig\<rparr>)
   \<and> evaluate (clock_from 1700001200000) example_active (toLowerCase ''My Phone Has No Signal'') =
        evaluate (clock_from 1700001200000) example_active ''My Phone Has No Signal''"
proof -
  let ?s = "\<lparr>sim_id = Some ''sim_1'', sim_status = Some ''active'', sim_createdAt = None\<rparr>"
  have h: "sim example_active = Some ?s \<and> sim_status ?s = Some ''active''
      \<and> status example_active = Some ''active''"
    by (simp add: example_active_def)
  have low: "toLowerCase ''My phone is NOT Working'' = ''my phone is '' @ ''not working'' @ []"
    by code_simp
  have kw: "''not working'' \<in> set [''no service'', ''no data'', ''not working'', ''no signal'']"
    by simp
  have occurs: "\<exists>kw\<in>set [''no service'', ''no data'', ''not working'', ''no signal''].
      \<exists>p q. toLowerCase ''My phone is NOT Working'' = p @ kw @ q"
    using low kw by blast
  have a: "evaluate (clock_from 1700001200000) example_active ''My phone is NOT Working'' =
        Inr (Some \<lparr>ruleName = ''device_config'', confidence = 85,
              action = ''route_to_settings_guide'', simId = None,
              message = MsgDeviceSettings, reasoning = WhyDeviceConfig\<rparr>)"
    using evaluate_toLowerCase [of "clock_from 1700001200000" example_active
        "''My phone is NOT Working''"] h occurs
    by blast
  have b: "evaluate (clock_from 1700001200000) example_active ''I have NO SERVICE at all'' =
        Inr (Some \<lparr>ruleName = ''device_config'', confidence = 85,
              action = ''route_to_settings_guide'', simId = None,
              message = MsgDeviceSettings, reasoning = WhyDeviceConfig\<rparr>)"
    using evaluate_toLowerCase [of "clock_from 1700001200000" example_active
        "''My phone is NOT Working''"] h
    by blast
  have c: "evaluate (clock_from 1700001200000) example_active
        (toLowerCase ''My Phone Has No Signal'') =
        evaluate (clock_from 1700001200000) example_active ''My Phone Has No Signal''"
    using evaluate_toLowerCase [of "clock_from 1700001200000" example_active
        "''My Phone Has No Signal''"]
    by blast
  have low': "toLowerCase ''My phone is NOT Working'' =
      ''my '' @ ''phone is '' @ ''not working'' @ []"
    using low by simp
  show ?thesis using a b c low' by blast
qed

text \<open>
  C8. When the call to the provider's reprovision endpoint fails, \<open>reprovisionSIM\<close>
  returns an outcome whose success flag is true, whose data is made up by the program
  and which is marked as mocked. The handler puts this outcome into its answer, on
  the path of the rules and on the path of the reasoner, and whenever both request
  fields are present and the subscription has been fetched the answer has status 200.
\<close>

theorem reprovisionSIM_failure_masked:
  "(http_post p (''/v1/sims/'' @ i @ ''/reprovision'') = Inl err \<longrightarrow>
      reprovisionSIM p ts i =
        \<lparr>success = True,
         outcome_data = MockData
           \<lparr>mock_simId = i, mock_action = ''reprovision_triggered'',
            mock_message = ''SIM reprovisioning initiated (mocked for prototype)'',
            mock_timestamp = ts\<rparr>,
         mocked = Some True\<rparr>)
   \<and> (http_post (gigs e) (''/v1/sims/'' @ i @ ''/reprovision'') = Inl err
        \<and> action r = ''reprovision'' \<and> simId r = Some i \<and> i \<noteq> [] \<longrightarrow>
      re_actionResult (rule_engine_answer e sid r) = Some
        \<lparr>success = True,
         outcome_data = MockData
           \<lparr>mock_simId = i, mock_action = ''reprovision_triggered'',
            mock_message = ''SIM reprovisioning initiated (mocked for prototype)'',
            mock_timestamp = clock_later e\<rparr>,
         mocked = Some True\<rparr>)
   \<and> (http_post (gigs e) (''/v1/sims/'' @ i @ ''/reprovision'') = Inl err
        \<and> js_ge (llm_confidence dg) 80 \<and> recommendedAction dg = ''reprovision''
        \<and> sim_id_opt sub = Some i \<and> i \<noteq> [] \<longrightarrow>
      lb_actionResult (llm_answer e sid sub dg) = Some
        \<lparr>success = True,
         outcome_data = MockData
           \<lparr>mock_simId = i, mock_action = ''reprovision_triggered'',
            mock_message = ''SIM reprovisioning initiated (mocked for prototype)'',
            mock_timestamp = clock_later e\<rparr>,
         mocked = Some True\<rparr>)
   \<and> (truthy (req_subscriptionId req) \<and> truthy (req_userIssue req)
        \<and> getSubscription (gigs e) (template (req_subscriptionId req)) = SubscriptionOk sub'
        \<longrightarrow> status_code (diagnose_handler e req) = 200)"
proof (intro conjI)
  show "http_post p (''/v1/sims/'' @ i @ ''/reprovision'') = Inl err \<longrightarrow>
      reprovisionSIM p ts i =
        \<lparr>success = True,
         outcome_data = MockData
           \<lparr>mock_simId = i, mock_action = ''reprovision_triggered'',
            mock_message = ''SIM reprovisioning initiated (mocked for prototype)'',
            mock_timestamp = ts\<rparr>,
         mocked = Some True\<rparr>"
    by (simp add: reprovisionSIM_def)
next
  show "http_post (gigs e) (''/v1/sims/'' @ i @ ''/reprovision'') = Inl err
        \<and> action r = ''reprovision'' \<and> simId r = Some i \<and> i \<noteq> [] \<longrightarrow>
      re_actionResult (rule_engine_answer e sid r) = Some
        \<lparr>success = True,
         outcome_data = MockData
           \<lparr>mock_simId = i, mock_action = ''reprovision_triggered'',
            mock_message = ''SIM reprovisioning initiated (mocked for prototype)'',
            mock_timestamp = clock_later e\<rparr>,
         mocked = Some True\<rparr>"
    by (simp add: reprovisionSIM_def rule_engine_answer_def)
next
  show "http_post (gigs e) (''/v1/sims/'' @ i @ ''/reprovision'') = Inl err
        \<and> js_ge (llm_confidence dg) 80 \<and> recommendedAction dg = ''reprovision''
        \<and> sim_id_opt sub = Some i \<and> i \<noteq> [] \<longrightarrow>
      lb_actionResult (llm_answer e sid sub dg) = Some
        \<lparr>success = True,
         outcome_data = MockData
           \<lparr>mock_simId = i, mock_action = ''reprovision_triggered'',
            mock_message = ''SIM reprovisioning initiated (mocked for prototype)'',
            mock_timestamp = clock_later e\<rparr>,
         mocked = Some True\<rparr>"
    by (simp add: reprovisionSIM_def llm_answer_def)
next
  show "truthy (req_subscriptionId req) \<and> truthy (req_userIssue req)
        \<and> getSubscription (gigs e) (template (req_subscriptionId req)) = SubscriptionOk sub'
        \<longrightarrow> status_code (diagnose_handler e req) = 200"
    using evaluate_total [of "clock e"]
    by (auto simp: diagnose_handler_def split: option.splits llm_result.splits sum.splits)
qed

theorem reprovisionSIM_failure_masked_witness:
  "reprovisionSIM (gigs (example_env example_stuck (example_diagnosis 90))) 1700001201000
      ''sim_1'' =
        \<lparr>success = True,
         outcome_data = MockData
           \<lparr>mock_simId = ''sim_1'', mock_action = ''reprovision_triggered'',
            mock_message = ''SIM reprovisioning initiated (mocked for prototype)'',
            mock_timestamp = 1700001201000\<rparr>,
         mocked = Some True\<rparr>
   \<and> re_actionResult (rule_engine_answer (example_env example_stuck (example_diagnosis 90))
        ''sub_test_stuck''
        \<lparr>ruleName = ''provisioning_stuck'', confidence = 95, action = ''reprovision'',
         simId = Some ''sim_1'', message = MsgActivationReset,
         reasoning = WhyPendingFor (Num 20)\<rparr>) = Some
        \<lparr>success = True,
         outcome_data = MockData
           \<lparr>mock_simId = ''sim_1'', mock_action = ''reprovision_triggered'',
            mock_message = ''SIM reprovisioning initiated (mocked for prototype)'',
            mock_timestamp = 1700001201000\<rparr>,
         mocked = Some True\<rparr>
   \<and> status_code (diagnose_handler (example_env example_stuck (example_diagnosis 90))
        \<lparr>req_subscriptionId = Some ''sub_test_stuck'',
         req_userIssue = Some ''my eSIM has been stuck for 2 hours''\<rparr>) = 200"
proof -
  let ?e = "example_env example_stuck (example_diagnosis 90)"
  let ?req = "\<lparr>req_subscriptionId = Some ''sub_test_stuck'',
         req_userIssue = Some ''my eSIM has been stuck for 2 hours''\<rparr>"
  let ?r = "\<lparr>ruleName = ''provisioning_stuck'', confidence = 95, action = ''reprovision'',
         simId = Some ''sim_1'', message = MsgActivationReset,
         reasoning = WhyPendingFor (Num 20)\<rparr>"
  have post: "http_post (gigs ?e) (''/v1/sims/'' @ ''sim_1'' @ ''/reprovision'')
      = Inl ''Request failed with status code 404''"
    by (simp add: example_env_def)
  have later: "clock_later ?e = 1700001201000" by (simp add: example_env_def)
  have r: "action ?r = ''reprovision'' \<and> simId ?r = Some ''sim_1'' \<and> ''sim_1'' \<noteq> []"
    by simp
  have req: "truthy (req_subscriptionId ?req) \<and> truthy (req_userIssue ?req)
      \<and> getSubscription (gigs ?e) (template (req_subscriptionId ?req))
          = SubscriptionOk example_stuck"
    by (simp add: getSubscription_def example_env_def)
  from reprovisionSIM_failure_masked [of "gigs ?e" "''sim_1''"
      "''Request failed with status code 404''" 1700001201000 ?e ?r "''sub_test_stuck''"
      "example_diagnosis 90" example_stuck ?req example_stuck]
    post later r req
  show ?thesis by simp
qed

text \<open>
  C9. Every diagnosis that \<open>evaluate\<close> returns has a confidence between 0 and 100 and an
  action that is one of \<open>reprovision\<close>, \<open>route_to_payment\<close>,
  \<open>route_to_payment_restoration\<close>, \<open>route_to_settings_guide\<close>, \<open>wait\<close>, \<open>inform_only\<close>
  and \<open>escalate\<close>.
\<close>

theorem evaluate_result_fields:
  assumes "evaluate t d u = Inr (Some r)"
  shows "0 \<le> confidence r \<and> confidence r \<le> 100
       \<and> action r \<in> set [''reprovision'', ''route_to_payment'', ''route_to_payment_restoration'',
            ''route_to_settings_guide'', ''wait'', ''inform_only'', ''escalate'']"
  using assms
  by (cases "sim d") (auto simp: evaluate_no_sim evaluate_with_sim split: if_splits)

theorem evaluate_result_fields_witness:
  "evaluate (clock_from 1700001200000) example_stuck ''my eSIM has been stuck for 2 hours'' =
     Inr (Some \<lparr>ruleName = ''provisioning_stuck'', confidence = 95, action = ''reprovision'',
           simId = Some ''sim_1'', message = MsgActivationReset,
           reasoning = WhyPendingFor (Num 20)\<rparr>)
   \<and> ''reprovision'' \<in> set [''reprovision'', ''route_to_payment'', ''route_to_payment_restoration'',
            ''route_to_settings_guide'', ''wait'', ''inform_only'', ''escalate'']"
  using evaluate_result_fields [OF example_stuck_rule] example_stuck_rule by simp

text \<open>
  C10. For a subscription without a SIM object, reading the SIM status from the missing
  object would throw, but the rules read it from the empty object put in its place:
  the four rules that read the SIM status abstain, and \<open>evaluate\<close> returns a result and
  no error. The result is \<open>payment_overdue\<close> for a restricted subscription, otherwise
  \<open>subscription_ended\<close> for an ended one, otherwise \<open>activation_failed\<close> when the
  lower-case text contains "activation failed", and otherwise no match.
\<close>

theorem evaluate_without_sim:
  assumes "sim d = None"
  shows "get_property (sim d) sim_status = Inl TypeError
       \<and> get_property (sim_or_empty d) sim_status = Inr None
       \<and> ruleProvisioningStuck t d u = Inr None \<and> ruleBillingHold t d u = Inr None
       \<and> ruleNormalDelay t d u = Inr None \<and> ruleDeviceConfig t d u = Inr None
       \<and> evaluate t d u =
           Inr (if status d = Some ''restricted'' then Some \<lparr>ruleName = ''payment_overdue'', confidence = 98,
              action = ''route_to_payment_restoration'', simId = None,
              message = MsgOverdue, reasoning = WhyRestricted\<rparr>
                else if status d = Some ''ended'' then Some \<lparr>ruleName = ''subscription_ended'', confidence = 100, action = ''inform_only'',
              simId = None, message = MsgCanceled, reasoning = WhyEnded\<rparr>
                else if (\<exists>p q. toLowerCase u = p @ ''activation failed'' @ q)
                then Some \<lparr>ruleName = ''activation_failed'', confidence = 85, action = ''reprovision'',
              simId = None, message = MsgActivationReset, reasoning = WhyPendingTwenty\<rparr>
                else None)"
proof -
  have m: "mentions activationFailedKeyword u \<longleftrightarrow>
      (\<exists>p q. toLowerCase u = p @ ''activation failed'' @ q)"
    using mentions_iff [of activationFailedKeyword u]
    by (simp add: activationFailedKeyword_def)
  have a: "get_property (sim d) sim_status = Inl TypeError"
    using assms by simp
  have b: "get_property (sim_or_empty d) sim_status = Inr None"
    using assms by (simp add: get_sim_property empty_sim_def)
  have r: "ruleProvisioningStuck t d u = Inr None" "ruleBillingHold t d u = Inr None"
    "ruleNormalDelay t d u = Inr None" "ruleDeviceConfig t d u = Inr None"
    using assms
    by (simp_all add: ruleProvisioningStuck_def ruleBillingHold_def ruleNormalDelay_def
        ruleDeviceConfig_def get_sim_property empty_sim_def Let_def)
  have e: "evaluate t d u =
           Inr (if status d = Some ''restricted'' then Some \<lparr>ruleName = ''payment_overdue'', confidence = 98,
              action = ''route_to_payment_restoration'', simId = None,
              message = MsgOverdue, reasoning = WhyRestricted\<rparr>
                else if status d = Some ''ended'' then Some \<lparr>ruleName = ''subscription_ended'', confidence = 100, action = ''inform_only'',
              simId = None, message = MsgCanceled, reasoning = WhyEnded\<rparr>
                else if (\<exists>p q. toLowerCase u = p @ ''activation failed'' @ q)
                then Some \<lparr>ruleName = ''activation_failed'', confidence = 85, action = ''reprovision'',
              simId = None, message = MsgActivationReset, reasoning = WhyPendingTwenty\<rparr>
                else None)"
    using evaluate_no_sim [OF assms, of t u] m by simp
  show ?thesis using a b r e by (intro conjI)
qed

theorem evaluate_without_sim_witness:
  "evaluate (clock_from 1700001200000)
        \<lparr>status = Some ''restricted'', createdAt = None, sim = None\<rparr> ''anything'' =
      Inr (Some \<lparr>ruleName = ''payment_overdue'', confidence = 98,
              action = ''route_to_payment_restoration'', simId = None,
              message = MsgOverdue, reasoning = WhyRestricted\<rparr>)
   \<and> evaluate (clock_from 1700001200000)
        \<lparr>status = Some ''ended'', createdAt = None, sim = None\<rparr> ''anything'' =
      Inr (Some \<lparr>ruleName = ''subscription_ended'', confidence = 100, action = ''inform_only'',
              simId = None, message = MsgCanceled, reasoning = WhyEnded\<rparr>)
   \<and> toLowerCase ''My ACTIVATION FAILED again'' = ''my '' @ ''activation failed'' @ '' again''
   \<and> evaluate (clock_from 1700001200000)
        \<lparr>status = Some ''pending'', createdAt = None, sim = None\<rparr>
        ''My ACTIVATION FAILED again'' =
      Inr (Some \<lparr>ruleName = ''activation_failed'', confidence = 85, action = ''reprovision'',
              simId = None, message = MsgActivationReset, reasoning = WhyPendingTwenty\<rparr>)
   \<and> evaluate (clock_from 1700001200000)
        \<lparr>status = Some ''pending'', createdAt = None, sim = None\<rparr> ''anything'' = Inr None
   \<and> get_property (sim \<lparr>status = Some ''pending'', createdAt = None, sim = None\<rparr>)
        sim_status = Inl TypeError"
proof -
  let ?t = "clock_from 1700001200000"
  let ?d1 = "\<lparr>status = Some ''restricted'', createdAt = None, sim = None\<rparr>"
  let ?d2 = "\<lparr>status = Some ''ended'', createdAt = None, sim = None\<rparr>"
  let ?d3 = "\<lparr>status = Some ''pending'', createdAt = None, sim = None\<rparr>"
  have h1: "sim ?d1 = None" by simp
  have h2: "sim ?d2 = None" by simp
  have h3: "sim ?d3 = None" by simp
  have low: "toLowerCase ''My ACTIVATION FAILED again'' =
      ''my '' @ ''activation failed'' @ '' again''"
    by code_simp
  then have yes: "\<exists>p q. toLowerCase ''My ACTIVATION FAILED again'' =
      p @ ''activation failed'' @ q" by blast
  have "\<not> str_includes (toLowerCase ''anything'') ''activation failed''"
    by code_simp
  then have no: "\<not> (\<exists>p q. toLowerCase ''anything'' = p @ ''activation failed'' @ q)"
    using str_includes_iff [of "toLowerCase ''anything''" "''activation failed''"] by blast
  from evaluate_without_sim [OF h1, of ?t "''anything''"]
  have a: "evaluate ?t ?d1 ''anything'' = Inr (Some \<lparr>ruleName = ''payment_overdue'', confidence = 98,
              action = ''route_to_payment_restoration'', simId = None,
              message = MsgOverdue, reasoning = WhyRestricted\<rparr>)" by simp
  from evaluate_without_sim [OF h2, of ?t "''anything''"]
  have b: "evaluate ?t ?d2 ''anything'' = Inr (Some \<lparr>ruleName = ''subscription_ended'', confidence = 100, action = ''inform_only'',
              simId = None, message = MsgCanceled, reasoning = WhyEnded\<rparr>)" by simp
  from evaluate_without_sim [OF h3, of ?t "''My ACTIVATION FAILED again''"] yes
  have c: "evaluate ?t ?d3 ''My ACTIVATION FAILED again'' = Inr (Some \<lparr>ruleName = ''activation_failed'', confidence = 85, action = ''reprovision'',
              simId = None, message = MsgActivationReset, reasoning = WhyPendingTwenty\<rparr>)" by simp
  from evaluate_without_sim [OF h3, of ?t "''anything''"] no
  have d: "evaluate ?t ?d3 ''anything'' = Inr None" by simp
  from evaluate_without_sim [OF h3, of ?t "''anything''"]
  have e: "get_property (sim ?d3) sim_status = Inl TypeError" by blast
  show ?thesis using a b c d e low by (intro conjI)
qed

end
